theory Spec2Isabelle
  imports Complex_Main
begin

section \<open>Numbers of the source language\<close>

text \<open>
  Every quantity of the engine is a JavaScript \<^verbatim>\<open>number\<close>. A number is modelled as an exact
  rational, or one of the three special values \<^verbatim>\<open>Infinity\<close>, \<^verbatim>\<open>-Infinity\<close> and \<^verbatim>\<open>NaN\<close>.
  The operations below follow ECMAScript on these values: a division by zero gives an
  infinity or \<^verbatim>\<open>NaN\<close> instead of failing, \<^verbatim>\<open>NaN\<close> is absorbing, every comparison with
  \<^verbatim>\<open>NaN\<close> is false, \<^verbatim>\<open>Math.round\<close> rounds a half upwards.
  Two things are left out: the rounding and the overflow of binary64 (a finite result is
  the exact rational), and the sign of zero (zero is \<^verbatim>\<open>+0\<close>). The facts below that
  evaluate the engine do so at inputs where binary64 gives the same numbers, up to the last
  digit of a quotient; no fact below bounds a rounding error of the code.
\<close>

datatype number = Fin rat | PosInfinity | NegInfinity | NaN

fun is_fin :: "number \<Rightarrow> bool" where
  "is_fin (Fin q) = True"
| "is_fin PosInfinity = False"
| "is_fin NegInfinity = False"
| "is_fin NaN = False"

fun jneg :: "number \<Rightarrow> number" where
  "jneg (Fin a) = Fin (- a)"
| "jneg PosInfinity = NegInfinity"
| "jneg NegInfinity = PosInfinity"
| "jneg NaN = NaN"

text \<open>\<^verbatim>\<open>a + b\<close>\<close>

fun jadd :: "number \<Rightarrow> number \<Rightarrow> number" where
  "jadd (Fin a) (Fin b) = Fin (a + b)"
| "jadd NaN b = NaN"
| "jadd a NaN = NaN"
| "jadd PosInfinity NegInfinity = NaN"
| "jadd NegInfinity PosInfinity = NaN"
| "jadd PosInfinity b = PosInfinity"
| "jadd NegInfinity b = NegInfinity"
| "jadd (Fin a) PosInfinity = PosInfinity"
| "jadd (Fin a) NegInfinity = NegInfinity"

text \<open>\<^verbatim>\<open>a - b\<close>\<close>

definition jsub :: "number \<Rightarrow> number \<Rightarrow> number" where
  "jsub a b = jadd a (jneg b)"

text \<open>The infinity with the sign of a non-zero rational, and \<^verbatim>\<open>NaN\<close> for zero.\<close>

definition signed_inf :: "rat \<Rightarrow> number" where
  "signed_inf s = (if s = 0 then NaN else if 0 < s then PosInfinity else NegInfinity)"

text \<open>\<^verbatim>\<open>a * b\<close>: an infinity times zero is \<^verbatim>\<open>NaN\<close>.\<close>

fun jmul :: "number \<Rightarrow> number \<Rightarrow> number" where
  "jmul (Fin a) (Fin b) = Fin (a * b)"
| "jmul NaN b = NaN"
| "jmul a NaN = NaN"
| "jmul (Fin a) PosInfinity = signed_inf a"
| "jmul (Fin a) NegInfinity = signed_inf (- a)"
| "jmul PosInfinity (Fin b) = signed_inf b"
| "jmul NegInfinity (Fin b) = signed_inf (- b)"
| "jmul PosInfinity PosInfinity = PosInfinity"
| "jmul PosInfinity NegInfinity = NegInfinity"
| "jmul NegInfinity PosInfinity = NegInfinity"
| "jmul NegInfinity NegInfinity = PosInfinity"

text \<open>
  \<^verbatim>\<open>a / b\<close>: a non-zero finite number over zero is an infinity of its sign, zero over zero
  and an infinity over an infinity are \<^verbatim>\<open>NaN\<close>, a finite number over an infinity is zero.
\<close>

fun jdiv :: "number \<Rightarrow> number \<Rightarrow> number" where
  "jdiv (Fin a) (Fin b) = (if b = 0 then signed_inf a else Fin (a / b))"
| "jdiv NaN b = NaN"
| "jdiv a NaN = NaN"
| "jdiv (Fin a) PosInfinity = Fin 0"
| "jdiv (Fin a) NegInfinity = Fin 0"
| "jdiv PosInfinity (Fin b) = (if 0 \<le> b then PosInfinity else NegInfinity)"
| "jdiv NegInfinity (Fin b) = (if 0 \<le> b then NegInfinity else PosInfinity)"
| "jdiv PosInfinity b = NaN"
| "jdiv NegInfinity b = NaN"

text \<open>\<^verbatim>\<open>a > b\<close>, false as soon as one side is \<^verbatim>\<open>NaN\<close>.\<close>

fun jgt :: "number \<Rightarrow> number \<Rightarrow> bool" where
  "jgt (Fin a) (Fin b) = (b < a)"
| "jgt NaN b = False"
| "jgt a NaN = False"
| "jgt PosInfinity PosInfinity = False"
| "jgt PosInfinity b = True"
| "jgt a PosInfinity = False"
| "jgt NegInfinity b = False"
| "jgt (Fin a) NegInfinity = True"

text \<open>\<^verbatim>\<open>a < b\<close>, \<^verbatim>\<open>a <= b\<close> and \<^verbatim>\<open>a === b\<close>.\<close>

definition jlt :: "number \<Rightarrow> number \<Rightarrow> bool" where
  "jlt a b = jgt b a"

definition jeq :: "number \<Rightarrow> number \<Rightarrow> bool" where
  "jeq a b = (a = b \<and> a \<noteq> NaN)"

definition jle :: "number \<Rightarrow> number \<Rightarrow> bool" where
  "jle a b = (jlt a b \<or> jeq a b)"

text \<open>\<^verbatim>\<open>Math.max(a, b)\<close> and \<^verbatim>\<open>Math.min(a, b)\<close>: \<^verbatim>\<open>NaN\<close> if an argument is.\<close>

definition jmax :: "number \<Rightarrow> number \<Rightarrow> number" where
  "jmax a b = (if a = NaN \<or> b = NaN then NaN else if jgt b a then b else a)"

definition jmin :: "number \<Rightarrow> number \<Rightarrow> number" where
  "jmin a b = (if a = NaN \<or> b = NaN then NaN else if jgt a b then b else a)"

text \<open>\<^verbatim>\<open>Math.abs(a)\<close>\<close>

fun jabs :: "number \<Rightarrow> number" where
  "jabs (Fin a) = Fin \<bar>a\<bar>"
| "jabs PosInfinity = PosInfinity"
| "jabs NegInfinity = PosInfinity"
| "jabs NaN = NaN"

text \<open>\<^verbatim>\<open>Math.round(a)\<close>: the nearest integer, a half rounded towards \<^verbatim>\<open>+Infinity\<close>.\<close>

fun jround :: "number \<Rightarrow> number" where
  "jround (Fin a) = Fin (of_int \<lfloor>a + 1 / 2\<rfloor>)"
| "jround PosInfinity = PosInfinity"
| "jround NegInfinity = NegInfinity"
| "jround NaN = NaN"

section \<open>Data model\<close>

text \<open>The interfaces \<^verbatim>\<open>MockFinancials\<close> (with its nested \<^verbatim>\<open>expenses\<close> object),
  \<^verbatim>\<open>WhatIfParams\<close> and \<^verbatim>\<open>CreditScoreBreakdown\<close> of \<^verbatim>\<open>types.ts\<close>.\<close>

record Expenses =
  engineering :: number
  marketing :: number
  sales :: number
  operations :: number
  aws :: number

record MockFinancials =
  mrr :: number
  burn :: number
  runway :: number
  cash :: number
  expenses :: Expenses
  growth :: number
  revenue :: number

record WhatIfParams =
  spendChange :: number
  hiringRate :: number
  revenueGrowth :: number

record CreditScoreBreakdown =
  b_revenueGrowth :: number
  b_burnStability :: number
  b_cashRunway :: number
  b_debtRatio :: number
  b_paymentReliability :: number
  b_profitabilityIndex :: number
  b_liquidityIndex :: number

text \<open>The constant \<^verbatim>\<open>BASE_FINANCIALS\<close>.\<close>

definition BASE_FINANCIALS :: MockFinancials where
  "BASE_FINANCIALS =
     \<lparr> mrr = Fin 45000,
       burn = Fin 85000,
       runway = Fin (31 / 5),
       cash = Fin 527000,
       expenses = \<lparr> engineering = Fin 45000, marketing = Fin 18000, sales = Fin 12000,
                    operations = Fin 7000, aws = Fin 3000 \<rparr>,
       growth = Fin (25 / 2),
       revenue = Fin 45000 \<rparr>"

section \<open>The engine\<close>

text \<open>The two private fields of the class \<^verbatim>\<open>MockDataEngine\<close>, and its constructor.\<close>

record MockDataEngine =
  baseData :: MockFinancials
  currentParams :: WhatIfParams

definition constructor :: MockDataEngine where
  "constructor =
     \<lparr> baseData = BASE_FINANCIALS,
       currentParams = \<lparr> spendChange = Fin 0, hiringRate = Fin 0, revenueGrowth = Fin 0 \<rparr> \<rparr>"

text \<open>\<^verbatim>\<open>Object.values(e).reduce((a, b) => a + b, 0)\<close>: the values in the order of the keys.\<close>

definition values_of :: "Expenses \<Rightarrow> number list" where
  "values_of e = [engineering e, marketing e, sales e, operations e, aws e]"

definition sum_values :: "Expenses \<Rightarrow> number" where
  "sum_values e = foldl jadd (Fin 0) (values_of e)"

text \<open>
  \<^verbatim>\<open>applyWhatIf(params)\<close> stores the parameters and returns the projected snapshot. The
  result is the pair of the snapshot and the engine after the call.
\<close>

definition applyWhatIf :: "WhatIfParams \<Rightarrow> MockDataEngine \<Rightarrow> MockFinancials \<times> MockDataEngine" where
  "applyWhatIf params e =
     (let base = baseData e;
          totalExpenses = sum_values (expenses base);
          spendMultiplier = jadd (Fin 1) (jdiv (spendChange params) (Fin 100));
          hiringImpact = jmul (hiringRate params) (Fin 15000);
          revenueMultiplier = jadd (Fin 1) (jdiv (revenueGrowth params) (Fin 100));
          newExpenses =
            \<lparr> engineering = jadd (jmul (engineering (expenses base)) spendMultiplier)
                                    (jmul hiringImpact (Fin (3 / 5))),
              marketing = jmul (marketing (expenses base)) spendMultiplier,
              sales = jadd (jmul (sales (expenses base)) spendMultiplier)
                            (jmul hiringImpact (Fin (3 / 10))),
              operations = jadd (jmul (operations (expenses base)) spendMultiplier)
                                 (jmul hiringImpact (Fin (1 / 10))),
              aws = jmul (aws (expenses base))
                         (jadd (Fin 1) (jdiv (spendChange params) (Fin 200))) \<rparr>;
          newTotalExpenses = sum_values newExpenses;
          newRevenue = jmul (revenue base) revenueMultiplier;
          newBurn = jsub newTotalExpenses newRevenue;
          newRunway = (if jgt newBurn (Fin 0) then jdiv (cash base) newBurn else Fin 99);
          newGrowth = jadd (growth base) (jmul (revenueGrowth params) (Fin (2 / 5)))
      in (\<lparr> mrr = newRevenue,
            burn = newBurn,
            runway = jmax (Fin 0) newRunway,
            cash = cash base,
            expenses = newExpenses,
            growth = newGrowth,
            revenue = newRevenue \<rparr>,
          e\<lparr>currentParams := params\<rparr>))"

text \<open>\<^verbatim>\<open>getCurrentFinancials()\<close>: the base data when the stored parameters are all
  \<^verbatim>\<open>=== 0\<close>, and \<^verbatim>\<open>applyWhatIf\<close> of the stored parameters otherwise.\<close>

definition getCurrentFinancials :: "MockDataEngine \<Rightarrow> MockFinancials \<times> MockDataEngine" where
  "getCurrentFinancials e =
     (if jeq (spendChange (currentParams e)) (Fin 0) \<and>
         jeq (hiringRate (currentParams e)) (Fin 0) \<and>
         jeq (revenueGrowth (currentParams e)) (Fin 0)
      then (baseData e, e)
      else applyWhatIf (currentParams e) e)"

text \<open>
  The engines a program can hold: the one the constructor builds, and the engine after any
  call of the two methods that touch the fields. No method assigns \<^verbatim>\<open>baseData\<close>.
\<close>

inductive reachable :: "MockDataEngine \<Rightarrow> bool" where
  new: "reachable constructor"
| applied: "reachable e \<Longrightarrow> reachable (snd (applyWhatIf params e))"
| queried: "reachable e \<Longrightarrow> reachable (snd (getCurrentFinancials e))"

section \<open>Credit score\<close>

text \<open>
  The seven locals of \<^verbatim>\<open>calculateCreditScore(financials)\<close>, each as a function of the
  snapshot, then the weights and the function itself.
\<close>

definition revenueGrowth_factor :: "MockFinancials \<Rightarrow> number" where
  "revenueGrowth_factor financials = jmin (Fin 1) (jdiv (growth financials) (Fin 30))"

definition burnStability_factor :: "MockFinancials \<Rightarrow> number" where
  "burnStability_factor financials =
     jmax (Fin 0)
       (jsub (Fin 1)
          (jdiv (jabs (jsub (burn financials) (burn BASE_FINANCIALS))) (burn BASE_FINANCIALS)))"

definition cashRunway_factor :: "MockFinancials \<Rightarrow> number" where
  "cashRunway_factor financials = jmin (Fin 1) (jdiv (runway financials) (Fin 12))"

definition debtRatio :: number where
  "debtRatio = Fin (85 / 100)"

definition paymentReliability :: number where
  "paymentReliability = Fin (92 / 100)"

definition profitabilityIndex_factor :: "MockFinancials \<Rightarrow> number" where
  "profitabilityIndex_factor financials =
     jmax (Fin 0) (jsub (Fin 1) (jdiv (burn financials) (revenue financials)))"

definition liquidityIndex_factor :: "MockFinancials \<Rightarrow> number" where
  "liquidityIndex_factor financials =
     jmin (Fin 1) (jdiv (cash financials) (jmul (burn financials) (Fin 3)))"

record Weights =
  w_revenueGrowth :: number
  w_burnStability :: number
  w_cashRunway :: number
  w_debtRatio :: number
  w_paymentReliability :: number
  w_profitabilityIndex :: number
  w_liquidityIndex :: number

definition weights :: Weights where
  "weights =
     \<lparr> w_revenueGrowth = Fin (25 / 100),
       w_burnStability = Fin (15 / 100),
       w_cashRunway = Fin (20 / 100),
       w_debtRatio = Fin (10 / 100),
       w_paymentReliability = Fin (10 / 100),
       w_profitabilityIndex = Fin (10 / 100),
       w_liquidityIndex = Fin (10 / 100) \<rparr>"

record CreditScore =
  score :: number
  breakdown :: CreditScoreBreakdown

definition calculateCreditScore :: "MockFinancials \<Rightarrow> CreditScore" where
  "calculateCreditScore financials =
     (let revenueGrowth = revenueGrowth_factor financials;
          burnStability = burnStability_factor financials;
          cashRunway = cashRunway_factor financials;
          profitabilityIndex = profitabilityIndex_factor financials;
          liquidityIndex = liquidityIndex_factor financials
      in \<lparr> score =
             jround
               (jmul (Fin 1000)
                  (jadd (jadd (jadd (jadd (jadd (jadd
                     (jmul revenueGrowth (w_revenueGrowth weights))
                     (jmul burnStability (w_burnStability weights)))
                     (jmul cashRunway (w_cashRunway weights)))
                     (jmul debtRatio (w_debtRatio weights)))
                     (jmul paymentReliability (w_paymentReliability weights)))
                     (jmul profitabilityIndex (w_profitabilityIndex weights)))
                     (jmul liquidityIndex (w_liquidityIndex weights)))),
           breakdown =
             \<lparr> b_revenueGrowth =
                 jround (jmul (jmul revenueGrowth (Fin 1000)) (w_revenueGrowth weights)),
               b_burnStability =
                 jround (jmul (jmul burnStability (Fin 1000)) (w_burnStability weights)),
               b_cashRunway =
                 jround (jmul (jmul cashRunway (Fin 1000)) (w_cashRunway weights)),
               b_debtRatio =
                 jround (jmul (jmul debtRatio (Fin 1000)) (w_debtRatio weights)),
               b_paymentReliability =
                 jround (jmul (jmul paymentReliability (Fin 1000)) (w_paymentReliability weights)),
               b_profitabilityIndex =
                 jround (jmul (jmul profitabilityIndex (Fin 1000)) (w_profitabilityIndex weights)),
               b_liquidityIndex =
                 jround (jmul (jmul liquidityIndex (Fin 1000)) (w_liquidityIndex weights)) \<rparr> \<rparr>)"

text \<open>The sum of the seven values of a breakdown, in the order of its keys.\<close>

definition breakdown_sum :: "CreditScoreBreakdown \<Rightarrow> number" where
  "breakdown_sum b =
     jadd (jadd (jadd (jadd (jadd (jadd (b_revenueGrowth b) (b_burnStability b))
       (b_cashRunway b)) (b_debtRatio b)) (b_paymentReliability b))
       (b_profitabilityIndex b)) (b_liquidityIndex b)"

section \<open>Funding readiness\<close>

datatype status = good | warning | critical

record Factor =
  f_name :: string
  f_score :: number
  f_status :: status

record FundingReadiness =
  fr_score :: number
  fr_factors :: "Factor list"
  fr_recommendation :: string

text \<open>The array \<^verbatim>\<open>factors\<close> of \<^verbatim>\<open>getFundingReadiness(financials)\<close>.\<close>

definition factors :: "MockFinancials \<Rightarrow> Factor list" where
  "factors financials =
     [ \<lparr> f_name = ''Valuation Multiple'', f_score = Fin 72, f_status = good \<rparr>,
       \<lparr> f_name = ''Growth Rate'',
         f_score = jround (jmin (Fin 100) (jmul (jdiv (growth financials) (Fin 20)) (Fin 100))),
         f_status = (if jgt (growth financials) (Fin 15) then good else warning) \<rparr>,
       \<lparr> f_name = ''Compliance & Audit'', f_score = Fin 95, f_status = good \<rparr>,
       \<lparr> f_name = ''Team Scale'', f_score = Fin 68, f_status = warning \<rparr>,
       \<lparr> f_name = ''Cash Runway'',
         f_score = jround (jmul (jdiv (runway financials) (Fin 12)) (Fin 100)),
         f_status = (if jgt (runway financials) (Fin 9) then good
                     else if jgt (runway financials) (Fin 6) then warning else critical) \<rparr> ]"

text \<open>The dash of the third recommendation is U+2014, three bytes in UTF-8.\<close>

definition getFundingReadiness :: "MockFinancials \<Rightarrow> FundingReadiness" where
  "getFundingReadiness financials =
     (let fs = factors financials;
          avgScore = jround (jdiv (foldl (\<lambda>sum f. jadd sum (f_score f)) (Fin 0) fs)
                                  (Fin (of_nat (length fs))));
          recommendation =
            (if jlt avgScore (Fin 70) then ''Delay raise by 2 months for better multiple.''
             else if jgt avgScore (Fin 85)
               then ''Strong position '' @ [CHR 0xE2, CHR 0x80, CHR 0x94] @
                    '' raise at premium valuation.''
             else ''Ready to raise now.'')
      in \<lparr> fr_score = avgScore, fr_factors = fs, fr_recommendation = recommendation \<rparr>)"

section \<open>Facts about numbers\<close>

lemma jle_Fin: "jle (Fin a) (Fin b) = (a \<le> b)"
  by (auto simp: jle_def jlt_def jeq_def)

text \<open>The clamp \<^verbatim>\<open>Math.max(0, newRunway)\<close> of the projection.\<close>

lemma clamp_div:
  assumes "0 \<le> c" and "jgt n (Fin 0)"
  shows "jmax (Fin 0) (jdiv (Fin c) n) = jdiv (Fin c) n"
proof (cases n)
  case (Fin b)
  with assms have "0 < b" by simp
  with assms have "0 \<le> c / b" by simp
  with \<open>0 < b\<close> Fin show ?thesis by (simp add: jmax_def)
qed (use assms in \<open>simp_all add: jmax_def\<close>)

lemma clamp_sentinel: "jmax (Fin 0) (Fin 99) = Fin 99"
  by (simp add: jmax_def)

lemma clamp_runway_nonneg:
  "jle (Fin 0) (jmax (Fin 0) (if jgt n (Fin 0) then jdiv (Fin c) n else Fin 99))"
  by (cases n) (auto simp: jmax_def jle_Fin)

lemma runway_antimono:
  assumes "0 < b" and "b < b'"
  shows "jle (jmax (Fin 0) (if jgt (Fin b') (Fin 0) then jdiv (Fin c) (Fin b') else Fin 99))
             (jmax (Fin 0) (if jgt (Fin b) (Fin 0) then jdiv (Fin c) (Fin b) else Fin 99))"
proof (cases "0 \<le> c")
  case True
  with assms have "c / b' \<le> c / b" by (simp add: frac_le)
  moreover from True assms have "0 \<le> c / b'" "0 \<le> c / b" by simp_all
  ultimately show ?thesis using assms
    by (simp add: jmax_def jle_Fin)
next
  case False
  with assms have "c / b' < 0" "c / b < 0" by (simp_all add: divide_neg_pos)
  then show ?thesis using assms
    by (simp add: jmax_def jle_Fin)
qed

section \<open>The projection and the baseline\<close>

lemma applyWhatIf_engine: "snd (applyWhatIf p e) = e\<lparr>currentParams := p\<rparr>"
  by (simp add: applyWhatIf_def Let_def)

lemma applyWhatIf_cash: "cash (fst (applyWhatIf p e)) = cash (baseData e)"
  by (simp add: applyWhatIf_def Let_def)

lemma applyWhatIf_burn:
  "burn (fst (applyWhatIf p e)) =
     jsub (sum_values (expenses (fst (applyWhatIf p e)))) (revenue (fst (applyWhatIf p e)))"
  by (simp add: applyWhatIf_def Let_def)

lemma applyWhatIf_runway:
  "runway (fst (applyWhatIf p e)) =
     jmax (Fin 0)
       (if jgt (burn (fst (applyWhatIf p e))) (Fin 0)
        then jdiv (cash (baseData e)) (burn (fst (applyWhatIf p e))) else Fin 99)"
  by (simp add: applyWhatIf_def Let_def)

text \<open>The burn of a scenario that changes the spend only, over a finite base.\<close>

lemma applyWhatIf_spend_burn:
  assumes "expenses (baseData e) =
             \<lparr> engineering = Fin en, marketing = Fin mk, sales = Fin sa,
               operations = Fin op, aws = Fin aw \<rparr>"
      and "revenue (baseData e) = Fin rv"
  shows "burn (fst (applyWhatIf \<lparr>spendChange = Fin s, hiringRate = Fin 0, revenueGrowth = Fin 0\<rparr> e)) =
           Fin ((en + mk + sa + op) * (1 + s / 100) + aw * (1 + s / 200) - rv)"
  using assms
  by (simp add: applyWhatIf_def Let_def sum_values_def values_of_def jsub_def algebra_simps)

lemmas eval_defs =
  applyWhatIf_def constructor_def BASE_FINANCIALS_def sum_values_def values_of_def
  jsub_def jmax_def Let_def

text \<open>
  C1: for parameters whose three fields are zero, \<^verbatim>\<open>applyWhatIf\<close> on the baseline is to
  return the baseline in every field. The engine does not: the constant
  \<^verbatim>\<open>BASE_FINANCIALS\<close> records a burn of 85000, the sum of its expenses, and a runway of 6.2,
  while the projection subtracts the revenue and returns a burn of 40000 and a runway of
  13.175. Every other field is the baseline's, and \<^verbatim>\<open>getCurrentFinancials\<close> of a new
  engine, whose parameters are zero, does return the baseline.
\<close>

theorem zero_scenario_differs_from_baseline:
  "fst (applyWhatIf \<lparr>spendChange = Fin 0, hiringRate = Fin 0, revenueGrowth = Fin 0\<rparr> constructor) =
     BASE_FINANCIALS \<lparr> burn := Fin 40000, runway := Fin (527 / 40) \<rparr> \<and>
   burn BASE_FINANCIALS = Fin 85000 \<and>
   runway BASE_FINANCIALS = Fin (31 / 5) \<and>
   fst (applyWhatIf \<lparr>spendChange = Fin 0, hiringRate = Fin 0, revenueGrowth = Fin 0\<rparr> constructor) \<noteq>
     BASE_FINANCIALS \<and>
   fst (getCurrentFinancials constructor) = BASE_FINANCIALS"
  by (simp add: eval_defs getCurrentFinancials_def jeq_def)

text \<open>
  The burn stability of the credit score measures the distance of a burn from the burn of
  \<^verbatim>\<open>BASE_FINANCIALS\<close>: it is 1 on the baseline and 8/17 on the scenario without change.
\<close>

lemma zero_scenario_burnStability:
  "burnStability_factor BASE_FINANCIALS = Fin 1 \<and>
   burnStability_factor
     (fst (applyWhatIf \<lparr>spendChange = Fin 0, hiringRate = Fin 0, revenueGrowth = Fin 0\<rparr>
        constructor)) = Fin (8 / 17)"
  by (simp add: burnStability_factor_def eval_defs)

text \<open>
  Every engine keeps the base data of the constructor, whose cash is 527000.
\<close>

lemma reachable_baseData: "reachable e \<Longrightarrow> baseData e = BASE_FINANCIALS"
  by (induction rule: reachable.induct)
     (simp_all add: constructor_def applyWhatIf_engine getCurrentFinancials_def)

text \<open>
  In every snapshot returned by \<^verbatim>\<open>applyWhatIf\<close>, whatever the parameters, the burn is the
  sum of the five expense categories minus the revenue, the runway is cash / burn when the
  burn is positive and the sentinel 99 otherwise, and the runway is at least 0.
\<close>

lemma projected_snapshot_invariant:
  assumes "reachable e"
  shows "burn (fst (applyWhatIf p e)) =
           jsub (sum_values (expenses (fst (applyWhatIf p e)))) (revenue (fst (applyWhatIf p e))) \<and>
         runway (fst (applyWhatIf p e)) =
           (if jgt (burn (fst (applyWhatIf p e))) (Fin 0)
            then jdiv (cash (fst (applyWhatIf p e))) (burn (fst (applyWhatIf p e))) else Fin 99) \<and>
         jle (Fin 0) (runway (fst (applyWhatIf p e)))"
proof -
  have c: "cash (baseData e) = Fin 527000"
    by (simp add: reachable_baseData [OF assms] BASE_FINANCIALS_def)
  have 1: "runway (fst (applyWhatIf p e)) =
           (if jgt (burn (fst (applyWhatIf p e))) (Fin 0)
            then jdiv (cash (fst (applyWhatIf p e))) (burn (fst (applyWhatIf p e))) else Fin 99)"
    by (simp add: applyWhatIf_runway [of p e] applyWhatIf_cash c clamp_div clamp_sentinel)
  have 2: "jle (Fin 0) (runway (fst (applyWhatIf p e)))"
    unfolding applyWhatIf_runway [of p e] c by (rule clamp_runway_nonneg)
  from applyWhatIf_burn [of p e] 1 2 show ?thesis by blast
qed

text \<open>
  The division of the projection is taken for a positive burn only, and the runway of a
  projected snapshot is a finite number, whatever the parameters.
\<close>

lemma projected_runway_finite:
  assumes "reachable e"
  shows "is_fin (runway (fst (applyWhatIf p e)))"
proof -
  have c: "cash (baseData e) = Fin 527000"
    by (simp add: reachable_baseData [OF assms] BASE_FINANCIALS_def)
  show ?thesis
    unfolding applyWhatIf_runway [of p e] c
    by (cases "burn (fst (applyWhatIf p e))") (simp_all add: jmax_def)
qed

text \<open>
  C2: for the baseline snapshot and for every snapshot returned by \<^verbatim>\<open>applyWhatIf\<close>, the
  burn is to be the sum of the five expense categories minus the revenue, the runway
  cash / burn when the burn is positive and 99 otherwise, and the runway never negative.
  The projected snapshots are as required, by the two facts above. In the baseline the
  runway is cash / burn, the burn being positive, and is not negative; but the burn, 85000,
  is not the sum of the five expense categories minus the revenue, which is 40000. The
  constant \<^verbatim>\<open>BASE_FINANCIALS\<close> records as its burn the sum of its expenses.
\<close>

theorem baseline_burn_is_not_expenses_minus_revenue:
  "burn BASE_FINANCIALS = Fin 85000 \<and>
   jsub (sum_values (expenses BASE_FINANCIALS)) (revenue BASE_FINANCIALS) = Fin 40000 \<and>
   burn BASE_FINANCIALS \<noteq>
     jsub (sum_values (expenses BASE_FINANCIALS)) (revenue BASE_FINANCIALS) \<and>
   jgt (burn BASE_FINANCIALS) (Fin 0) \<and>
   runway BASE_FINANCIALS = jdiv (cash BASE_FINANCIALS) (burn BASE_FINANCIALS) \<and>
   jle (Fin 0) (runway BASE_FINANCIALS)"
  by (simp add: BASE_FINANCIALS_def sum_values_def values_of_def jsub_def jle_Fin)

section \<open>Range of the credit factors\<close>

text \<open>
  On a snapshot of finite numbers with a positive burn, and with growth, runway, cash and
  revenue not negative, the five computed factors lie in [0,1]; the other two are the
  constants 0.85 and 0.92.
\<close>

lemma credit_factors_in_unit_interval:
  assumes "growth f = Fin g" "0 \<le> g" "runway f = Fin r" "0 \<le> r" "cash f = Fin c" "0 \<le> c"
    "revenue f = Fin v" "0 \<le> v" "burn f = Fin b" "0 < b"
  shows "jle (Fin 0) (revenueGrowth_factor f) \<and> jle (revenueGrowth_factor f) (Fin 1)"
    and "jle (Fin 0) (burnStability_factor f) \<and> jle (burnStability_factor f) (Fin 1)"
    and "jle (Fin 0) (cashRunway_factor f) \<and> jle (cashRunway_factor f) (Fin 1)"
    and "jle (Fin 0) (profitabilityIndex_factor f) \<and> jle (profitabilityIndex_factor f) (Fin 1)"
    and "jle (Fin 0) (liquidityIndex_factor f) \<and> jle (liquidityIndex_factor f) (Fin 1)"
    and "jle (Fin 0) debtRatio \<and> jle debtRatio (Fin 1)"
    and "jle (Fin 0) paymentReliability \<and> jle paymentReliability (Fin 1)"
proof -
  show "jle (Fin 0) (revenueGrowth_factor f) \<and> jle (revenueGrowth_factor f) (Fin 1)"
    using assms by (simp add: revenueGrowth_factor_def jmin_def jle_Fin)
  show "jle (Fin 0) (burnStability_factor f) \<and> jle (burnStability_factor f) (Fin 1)"
    using assms
    by (simp add: burnStability_factor_def BASE_FINANCIALS_def jmax_def jsub_def jle_Fin)
  show "jle (Fin 0) (cashRunway_factor f) \<and> jle (cashRunway_factor f) (Fin 1)"
    using assms by (simp add: cashRunway_factor_def jmin_def jle_Fin)
  show "jle (Fin 0) (profitabilityIndex_factor f) \<and> jle (profitabilityIndex_factor f) (Fin 1)"
  proof (cases "v = 0")
    case True
    with assms show ?thesis
      by (simp add: profitabilityIndex_factor_def jmax_def jsub_def signed_inf_def jle_Fin)
  next
    case False
    with assms have "0 \<le> b / v" by simp
    with False assms show ?thesis
      by (simp add: profitabilityIndex_factor_def jmax_def jsub_def jle_Fin)
  qed
  show "jle (Fin 0) (liquidityIndex_factor f) \<and> jle (liquidityIndex_factor f) (Fin 1)"
  proof -
    from assms have "0 \<le> c / (b * 3)" by simp
    with assms show ?thesis
      by (simp add: liquidityIndex_factor_def jmin_def jle_Fin)
  qed
  show "jle (Fin 0) debtRatio \<and> jle debtRatio (Fin 1)"
    by (simp add: debtRatio_def jle_Fin)
  show "jle (Fin 0) paymentReliability \<and> jle paymentReliability (Fin 1)"
    by (simp add: paymentReliability_def jle_Fin)
qed

text \<open>
  C3: each of the seven factors of \<^verbatim>\<open>calculateCreditScore\<close> is to lie in [0,1] before
  weighting, with the revenue growth clamped below at 0 and the liquidity index 1 when
  the burn is not positive. The code clamps each factor on one side only. For a spend
  change of -50, the lower end of the slider of the what-if view, the burn is -1750, the
  liquidity index is -2108/21 (about -100.4), the profitability index is 187/180, above 1,
  and the score, shown as a part of 1000, is -9453. For a revenue growth of -100 the growth
  is -27.5 and the revenue-growth factor is -11/12.
\<close>

theorem credit_factors_leave_unit_interval:
  "burn (fst (applyWhatIf \<lparr>spendChange = Fin (- 50), hiringRate = Fin 0, revenueGrowth = Fin 0\<rparr>
      constructor)) = Fin (- 1750) \<and>
   liquidityIndex_factor
     (fst (applyWhatIf \<lparr>spendChange = Fin (- 50), hiringRate = Fin 0, revenueGrowth = Fin 0\<rparr>
        constructor)) = Fin (- (2108 / 21)) \<and>
   profitabilityIndex_factor
     (fst (applyWhatIf \<lparr>spendChange = Fin (- 50), hiringRate = Fin 0, revenueGrowth = Fin 0\<rparr>
        constructor)) = Fin (187 / 180) \<and>
   score (calculateCreditScore
     (fst (applyWhatIf \<lparr>spendChange = Fin (- 50), hiringRate = Fin 0, revenueGrowth = Fin 0\<rparr>
        constructor))) = Fin (- 9453) \<and>
   growth (fst (applyWhatIf \<lparr>spendChange = Fin 0, hiringRate = Fin 0, revenueGrowth = Fin (- 100)\<rparr>
      constructor)) = Fin (- (55 / 2)) \<and>
   revenueGrowth_factor
     (fst (applyWhatIf \<lparr>spendChange = Fin 0, hiringRate = Fin 0, revenueGrowth = Fin (- 100)\<rparr>
        constructor)) = Fin (- (11 / 12))"
  by code_simp

text \<open>
  C4: every division of the engine is to be guarded against a denominator that is zero or
  negative, so that no operation gives \<^verbatim>\<open>NaN\<close> or an infinity. The division of the
  projection is guarded; the two divisions of \<^verbatim>\<open>calculateCreditScore\<close>, by the revenue and
  by three times the burn, are not. For a snapshot without revenue or expenses (burn 0,
  runway 99) the quotient burn / revenue is \<^verbatim>\<open>NaN\<close>, and so are the profitability index
  and the score; the quotient cash / (burn * 3) is \<^verbatim>\<open>Infinity\<close>. For a revenue growth of
  -100 the revenue is 0 and burn / revenue is \<^verbatim>\<open>Infinity\<close>.
\<close>

theorem credit_score_divisions_unguarded:
  "jdiv
     (burn
       \<lparr> mrr = Fin 0, burn = Fin 0, runway = Fin 99, cash = Fin 527000,
         expenses = \<lparr> engineering = Fin 0, marketing = Fin 0, sales = Fin 0,
                      operations = Fin 0, aws = Fin 0 \<rparr>,
         growth = Fin (25 / 2), revenue = Fin 0 \<rparr>)
     (revenue
       \<lparr> mrr = Fin 0, burn = Fin 0, runway = Fin 99, cash = Fin 527000,
         expenses = \<lparr> engineering = Fin 0, marketing = Fin 0, sales = Fin 0,
                      operations = Fin 0, aws = Fin 0 \<rparr>,
         growth = Fin (25 / 2), revenue = Fin 0 \<rparr>) = NaN \<and>
   profitabilityIndex_factor
     \<lparr> mrr = Fin 0, burn = Fin 0, runway = Fin 99, cash = Fin 527000,
       expenses = \<lparr> engineering = Fin 0, marketing = Fin 0, sales = Fin 0,
                    operations = Fin 0, aws = Fin 0 \<rparr>,
       growth = Fin (25 / 2), revenue = Fin 0 \<rparr> = NaN \<and>
   score (calculateCreditScore
     \<lparr> mrr = Fin 0, burn = Fin 0, runway = Fin 99, cash = Fin 527000,
       expenses = \<lparr> engineering = Fin 0, marketing = Fin 0, sales = Fin 0,
                    operations = Fin 0, aws = Fin 0 \<rparr>,
       growth = Fin (25 / 2), revenue = Fin 0 \<rparr>) = NaN \<and>
   jdiv
     (cash
       \<lparr> mrr = Fin 0, burn = Fin 0, runway = Fin 99, cash = Fin 527000,
         expenses = \<lparr> engineering = Fin 0, marketing = Fin 0, sales = Fin 0,
                      operations = Fin 0, aws = Fin 0 \<rparr>,
         growth = Fin (25 / 2), revenue = Fin 0 \<rparr>)
     (jmul
       (burn
         \<lparr> mrr = Fin 0, burn = Fin 0, runway = Fin 99, cash = Fin 527000,
           expenses = \<lparr> engineering = Fin 0, marketing = Fin 0, sales = Fin 0,
                        operations = Fin 0, aws = Fin 0 \<rparr>,
           growth = Fin (25 / 2), revenue = Fin 0 \<rparr>)
       (Fin 3)) = PosInfinity \<and>
   revenue (fst (applyWhatIf \<lparr>spendChange = Fin 0, hiringRate = Fin 0, revenueGrowth = Fin (- 100)\<rparr>
      constructor)) = Fin 0 \<and>
   jdiv
     (burn (fst (applyWhatIf \<lparr>spendChange = Fin 0, hiringRate = Fin 0, revenueGrowth = Fin (- 100)\<rparr>
        constructor)))
     (revenue (fst (applyWhatIf \<lparr>spendChange = Fin 0, hiringRate = Fin 0, revenueGrowth = Fin (- 100)\<rparr>
        constructor))) = PosInfinity"
  by code_simp

section \<open>Scenarios\<close>

text \<open>
  C5: the parameters \<^verbatim>\<open>{spendChange: 100, hiringRate: 0, revenueGrowth: 0}\<close> on the baseline
  give the expenses engineering 90000, marketing 36000, sales 24000, operations 14000 and
  aws 4500, in total 168500, the burn 168500 - 45000 = 123500 and the runway
  527000 / 123500, which is 4.27 to two decimals. The other fields are the baseline's.
\<close>

theorem spend_doubling_scenario:
  "fst (applyWhatIf \<lparr>spendChange = Fin 100, hiringRate = Fin 0, revenueGrowth = Fin 0\<rparr> constructor) =
     BASE_FINANCIALS
       \<lparr> burn := Fin (168500 - 45000),
         runway := Fin (527000 / 123500),
         expenses := \<lparr> engineering = Fin 90000, marketing = Fin 36000, sales = Fin 24000,
                       operations = Fin 14000, aws = Fin 4500 \<rparr> \<rparr> \<and>
   sum_values (expenses (fst (applyWhatIf
       \<lparr>spendChange = Fin 100, hiringRate = Fin 0, revenueGrowth = Fin 0\<rparr> constructor))) =
     Fin 168500 \<and>
   burn (fst (applyWhatIf
       \<lparr>spendChange = Fin 100, hiringRate = Fin 0, revenueGrowth = Fin 0\<rparr> constructor)) =
     Fin 123500 \<and>
   jlt (Fin (4265 / 1000))
     (runway (fst (applyWhatIf
       \<lparr>spendChange = Fin 100, hiringRate = Fin 0, revenueGrowth = Fin 0\<rparr> constructor))) \<and>
   jlt (runway (fst (applyWhatIf
       \<lparr>spendChange = Fin 100, hiringRate = Fin 0, revenueGrowth = Fin 0\<rparr> constructor)))
     (Fin (4275 / 1000))"
  by (simp add: eval_defs jlt_def)

text \<open>
  C6: with the hiring rate and the revenue growth at 0, the snapshot for a spend change of
  100 has a strictly greater burn than the snapshot for a spend change of 0, and a runway
  that is smaller or equal, given that the burn for a spend change of 0 is positive. This
  holds over every base whose expenses and revenue are finite and not negative and whose
  cash is finite.
\<close>

theorem spend_doubling_monotone:
  assumes ex: "expenses (baseData e) =
                 \<lparr> engineering = Fin en, marketing = Fin mk, sales = Fin sa,
                   operations = Fin op, aws = Fin aw \<rparr>"
      and nonneg: "0 \<le> en" "0 \<le> mk" "0 \<le> sa" "0 \<le> op" "0 \<le> aw"
      and rv: "revenue (baseData e) = Fin rv" "0 \<le> rv"
      and c: "cash (baseData e) = Fin c"
      and pos: "jgt (burn (fst (applyWhatIf
                  \<lparr>spendChange = Fin 0, hiringRate = Fin 0, revenueGrowth = Fin 0\<rparr> e))) (Fin 0)"
  shows "jgt (burn (fst (applyWhatIf
                \<lparr>spendChange = Fin 100, hiringRate = Fin 0, revenueGrowth = Fin 0\<rparr> e)))
             (burn (fst (applyWhatIf
                \<lparr>spendChange = Fin 0, hiringRate = Fin 0, revenueGrowth = Fin 0\<rparr> e))) \<and>
         jle (runway (fst (applyWhatIf
                \<lparr>spendChange = Fin 100, hiringRate = Fin 0, revenueGrowth = Fin 0\<rparr> e)))
             (runway (fst (applyWhatIf
                \<lparr>spendChange = Fin 0, hiringRate = Fin 0, revenueGrowth = Fin 0\<rparr> e)))"
proof -
  let ?b0 = "en + mk + sa + op + aw - rv"
  let ?b1 = "(en + mk + sa + op) * 2 + aw * (3 / 2) - rv"
  have b0: "burn (fst (applyWhatIf
      \<lparr>spendChange = Fin 0, hiringRate = Fin 0, revenueGrowth = Fin 0\<rparr> e)) = Fin ?b0"
    by (simp add: applyWhatIf_spend_burn [OF ex rv(1)])
  have b1: "burn (fst (applyWhatIf
      \<lparr>spendChange = Fin 100, hiringRate = Fin 0, revenueGrowth = Fin 0\<rparr> e)) = Fin ?b1"
    by (simp add: applyWhatIf_spend_burn [OF ex rv(1)])
  from pos have p0: "0 < ?b0" by (simp add: b0)
  with nonneg rv(2) have lt: "?b0 < ?b1" by simp
  have "jle (jmax (Fin 0) (if jgt (Fin ?b1) (Fin 0) then jdiv (Fin c) (Fin ?b1) else Fin 99))
            (jmax (Fin 0) (if jgt (Fin ?b0) (Fin 0) then jdiv (Fin c) (Fin ?b0) else Fin 99))"
    by (rule runway_antimono [OF p0 lt])
  then have "jle (runway (fst (applyWhatIf
                \<lparr>spendChange = Fin 100, hiringRate = Fin 0, revenueGrowth = Fin 0\<rparr> e)))
             (runway (fst (applyWhatIf
                \<lparr>spendChange = Fin 0, hiringRate = Fin 0, revenueGrowth = Fin 0\<rparr> e)))"
    by (simp only: applyWhatIf_runway b0 b1 c)
  moreover from lt have "jgt (burn (fst (applyWhatIf
                \<lparr>spendChange = Fin 100, hiringRate = Fin 0, revenueGrowth = Fin 0\<rparr> e)))
             (burn (fst (applyWhatIf
                \<lparr>spendChange = Fin 0, hiringRate = Fin 0, revenueGrowth = Fin 0\<rparr> e)))"
    by (simp only: b0 b1 jgt.simps)
  ultimately show ?thesis by blast
qed

theorem spend_doubling_monotone_witness:
  "jgt (burn (fst (applyWhatIf
          \<lparr>spendChange = Fin 0, hiringRate = Fin 0, revenueGrowth = Fin 0\<rparr> constructor))) (Fin 0) \<and>
   jgt (burn (fst (applyWhatIf
          \<lparr>spendChange = Fin 100, hiringRate = Fin 0, revenueGrowth = Fin 0\<rparr> constructor)))
       (burn (fst (applyWhatIf
          \<lparr>spendChange = Fin 0, hiringRate = Fin 0, revenueGrowth = Fin 0\<rparr> constructor))) \<and>
   jle (runway (fst (applyWhatIf
          \<lparr>spendChange = Fin 100, hiringRate = Fin 0, revenueGrowth = Fin 0\<rparr> constructor)))
       (runway (fst (applyWhatIf
          \<lparr>spendChange = Fin 0, hiringRate = Fin 0, revenueGrowth = Fin 0\<rparr> constructor)))"
proof -
  have ex: "expenses (baseData constructor) =
              \<lparr> engineering = Fin 45000, marketing = Fin 18000, sales = Fin 12000,
                operations = Fin 7000, aws = Fin 3000 \<rparr>"
    by (simp add: constructor_def BASE_FINANCIALS_def)
  have rv: "revenue (baseData constructor) = Fin 45000"
    by (simp add: constructor_def BASE_FINANCIALS_def)
  have c: "cash (baseData constructor) = Fin 527000"
    by (simp add: constructor_def BASE_FINANCIALS_def)
  have pos: "jgt (burn (fst (applyWhatIf
      \<lparr>spendChange = Fin 0, hiringRate = Fin 0, revenueGrowth = Fin 0\<rparr> constructor))) (Fin 0)"
    by (simp add: eval_defs)
  have n: "(0::rat) \<le> 45000" "(0::rat) \<le> 18000" "(0::rat) \<le> 12000" "(0::rat) \<le> 7000"
    "(0::rat) \<le> 3000"
    by simp_all
  from spend_doubling_monotone [OF ex n(1) n(2) n(3) n(4) n(5) rv n(1) c pos] pos
  show ?thesis by blast
qed

section \<open>Funding readiness score\<close>

text \<open>
  C7: the overall score returned by \<^verbatim>\<open>getFundingReadiness\<close> is the rounded unweighted
  mean of the five factor scores it returns: their sum, divided by five, then rounded.
\<close>

theorem funding_score_is_rounded_mean:
  "length (fr_factors (getFundingReadiness f)) = 5 \<and>
   fr_score (getFundingReadiness f) =
     jround (jdiv (foldl jadd (Fin 0) (map f_score (fr_factors (getFundingReadiness f)))) (Fin 5))"
  by (simp add: getFundingReadiness_def Let_def factors_def)

text \<open>
  C8: the score of the factor Cash Runway, the fifth of the list, is
  \<^verbatim>\<open>round(runway / 12 * 100)\<close> with no upper clamp, so that some snapshot scores above 100;
  its status is good when the runway is above 9, warning when it is above 6 and at most 9,
  and critical otherwise.
\<close>

theorem cash_runway_factor:
  "f_name (fr_factors (getFundingReadiness f) ! 4) = ''Cash Runway'' \<and>
   f_score (fr_factors (getFundingReadiness f) ! 4) =
     jround (jmul (jdiv (runway f) (Fin 12)) (Fin 100)) \<and>
   (f_status (fr_factors (getFundingReadiness f) ! 4) = good \<longleftrightarrow> jgt (runway f) (Fin 9)) \<and>
   (f_status (fr_factors (getFundingReadiness f) ! 4) = warning \<longleftrightarrow>
      jlt (Fin 6) (runway f) \<and> jle (runway f) (Fin 9)) \<and>
   (f_status (fr_factors (getFundingReadiness f) ! 4) = critical \<longleftrightarrow>
      \<not> jgt (runway f) (Fin 9) \<and> \<not> (jlt (Fin 6) (runway f) \<and> jle (runway f) (Fin 9))) \<and>
   (\<exists>g. jgt (f_score (fr_factors (getFundingReadiness g) ! 4)) (Fin 100))"
proof -
  have "jgt (f_score (fr_factors (getFundingReadiness (BASE_FINANCIALS\<lparr>runway := Fin 99\<rparr>)) ! 4))
          (Fin 100)"
    by (simp add: getFundingReadiness_def Let_def factors_def)
  then have ex: "\<exists>g. jgt (f_score (fr_factors (getFundingReadiness g) ! 4)) (Fin 100)" ..
  have "f_name (fr_factors (getFundingReadiness f) ! 4) = ''Cash Runway'' \<and>
   f_score (fr_factors (getFundingReadiness f) ! 4) =
     jround (jmul (jdiv (runway f) (Fin 12)) (Fin 100)) \<and>
   (f_status (fr_factors (getFundingReadiness f) ! 4) = good \<longleftrightarrow> jgt (runway f) (Fin 9)) \<and>
   (f_status (fr_factors (getFundingReadiness f) ! 4) = warning \<longleftrightarrow>
      jlt (Fin 6) (runway f) \<and> jle (runway f) (Fin 9)) \<and>
   (f_status (fr_factors (getFundingReadiness f) ! 4) = critical \<longleftrightarrow>
      \<not> jgt (runway f) (Fin 9) \<and> \<not> (jlt (Fin 6) (runway f) \<and> jle (runway f) (Fin 9)))"
    by (cases "runway f")
       (auto simp: getFundingReadiness_def Let_def factors_def jlt_def jle_def jeq_def)
  with ex show ?thesis by blast
qed

theorem cash_runway_factor_witness:
  "f_score (fr_factors (getFundingReadiness (BASE_FINANCIALS\<lparr>runway := Fin 99\<rparr>)) ! 4) = Fin 825 \<and>
   f_status (fr_factors (getFundingReadiness (BASE_FINANCIALS\<lparr>runway := Fin 99\<rparr>)) ! 4) = good \<and>
   f_score (fr_factors (getFundingReadiness BASE_FINANCIALS) ! 4) = Fin 52 \<and>
   f_status (fr_factors (getFundingReadiness BASE_FINANCIALS) ! 4) = warning"
proof -
  have r: "runway BASE_FINANCIALS = Fin (31 / 5)"
    by (simp add: BASE_FINANCIALS_def)
  have e1: "jround (jmul (jdiv (runway (BASE_FINANCIALS\<lparr>runway := Fin 99\<rparr>)) (Fin 12)) (Fin 100)) =
      Fin 825"
    by code_simp
  have e2: "jround (jmul (jdiv (runway BASE_FINANCIALS) (Fin 12)) (Fin 100)) = Fin 52"
    by code_simp
  from cash_runway_factor [of "BASE_FINANCIALS\<lparr>runway := Fin 99\<rparr>"]
  have "f_score (fr_factors (getFundingReadiness (BASE_FINANCIALS\<lparr>runway := Fin 99\<rparr>)) ! 4) =
      jround (jmul (jdiv (runway (BASE_FINANCIALS\<lparr>runway := Fin 99\<rparr>)) (Fin 12)) (Fin 100))"
    by blast
  from this e1
  have 1: "f_score (fr_factors (getFundingReadiness (BASE_FINANCIALS\<lparr>runway := Fin 99\<rparr>)) ! 4) =
      Fin 825"
    by (rule trans)
  from cash_runway_factor [of "BASE_FINANCIALS\<lparr>runway := Fin 99\<rparr>"]
  have "f_status (fr_factors (getFundingReadiness (BASE_FINANCIALS\<lparr>runway := Fin 99\<rparr>)) ! 4) = good
      \<longleftrightarrow> jgt (runway (BASE_FINANCIALS\<lparr>runway := Fin 99\<rparr>)) (Fin 9)"
    by blast
  then have 2:
    "f_status (fr_factors (getFundingReadiness (BASE_FINANCIALS\<lparr>runway := Fin 99\<rparr>)) ! 4) = good"
    by simp
  from cash_runway_factor [of BASE_FINANCIALS]
  have "f_score (fr_factors (getFundingReadiness BASE_FINANCIALS) ! 4) =
      jround (jmul (jdiv (runway BASE_FINANCIALS) (Fin 12)) (Fin 100))"
    by blast
  from this e2 have 3: "f_score (fr_factors (getFundingReadiness BASE_FINANCIALS) ! 4) = Fin 52"
    by (rule trans)
  from cash_runway_factor [of BASE_FINANCIALS]
  have "f_status (fr_factors (getFundingReadiness BASE_FINANCIALS) ! 4) = warning
      \<longleftrightarrow> jlt (Fin 6) (runway BASE_FINANCIALS) \<and> jle (runway BASE_FINANCIALS) (Fin 9)"
    by blast
  then have 4: "f_status (fr_factors (getFundingReadiness BASE_FINANCIALS) ! 4) = warning"
    by (simp add: r jle_Fin jlt_def)
  from 1 2 3 4 show ?thesis by blast
qed

section \<open>Breakdown and total of the credit score\<close>

text \<open>
  C9: for every snapshot, the sum of the seven values of the breakdown returned by
  \<^verbatim>\<open>calculateCreditScore\<close> is to differ from the returned total score by at most 7. On a
  snapshot without revenue or expenses (burn 0, runway 99) the code divides 0 by 0: the
  profitability index is \<^verbatim>\<open>NaN\<close>, and so are its value in the breakdown, the sum of the
  breakdown and the total score. Their difference is \<^verbatim>\<open>NaN\<close>, which is within 7 of
  nothing. Every number of this snapshot is an integer or 12.5, so the evaluation is the
  same in binary64.
\<close>

theorem breakdown_sum_tolerance_fails_without_revenue:
  "score (calculateCreditScore
     \<lparr> mrr = Fin 0, burn = Fin 0, runway = Fin 99, cash = Fin 527000,
       expenses = \<lparr> engineering = Fin 0, marketing = Fin 0, sales = Fin 0,
                    operations = Fin 0, aws = Fin 0 \<rparr>,
       growth = Fin (25 / 2), revenue = Fin 0 \<rparr>) = NaN \<and>
   b_profitabilityIndex (breakdown (calculateCreditScore
     \<lparr> mrr = Fin 0, burn = Fin 0, runway = Fin 99, cash = Fin 527000,
       expenses = \<lparr> engineering = Fin 0, marketing = Fin 0, sales = Fin 0,
                    operations = Fin 0, aws = Fin 0 \<rparr>,
       growth = Fin (25 / 2), revenue = Fin 0 \<rparr>)) = NaN \<and>
   breakdown_sum (breakdown (calculateCreditScore
     \<lparr> mrr = Fin 0, burn = Fin 0, runway = Fin 99, cash = Fin 527000,
       expenses = \<lparr> engineering = Fin 0, marketing = Fin 0, sales = Fin 0,
                    operations = Fin 0, aws = Fin 0 \<rparr>,
       growth = Fin (25 / 2), revenue = Fin 0 \<rparr>)) = NaN \<and>
   \<not> jle (jabs (jsub
     (breakdown_sum (breakdown (calculateCreditScore
        \<lparr> mrr = Fin 0, burn = Fin 0, runway = Fin 99, cash = Fin 527000,
          expenses = \<lparr> engineering = Fin 0, marketing = Fin 0, sales = Fin 0,
                       operations = Fin 0, aws = Fin 0 \<rparr>,
          growth = Fin (25 / 2), revenue = Fin 0 \<rparr>)))
     (score (calculateCreditScore
        \<lparr> mrr = Fin 0, burn = Fin 0, runway = Fin 99, cash = Fin 527000,
          expenses = \<lparr> engineering = Fin 0, marketing = Fin 0, sales = Fin 0,
                       operations = Fin 0, aws = Fin 0 \<rparr>,
          growth = Fin (25 / 2), revenue = Fin 0 \<rparr>)))) (Fin 7)"
  by code_simp

section \<open>Frame of the query\<close>

text \<open>
  C10: \<^verbatim>\<open>getCurrentFinancials\<close> leaves the engine as it was: the stored parameters and the
  base data are the same before and after a call, and a second call returns the snapshot of
  the first.
\<close>

theorem getCurrentFinancials_frame:
  "snd (getCurrentFinancials e) = e \<and>
   baseData (snd (getCurrentFinancials e)) = baseData e \<and>
   currentParams (snd (getCurrentFinancials e)) = currentParams e \<and>
   fst (getCurrentFinancials (snd (getCurrentFinancials e))) = fst (getCurrentFinancials e)"
proof -
  have "snd (getCurrentFinancials e) = e"
    by (simp add: getCurrentFinancials_def applyWhatIf_engine)
  then show ?thesis by simp
qed

end
